theory Spec2Isabelle
  imports Complex_Main "HOL-Library.Multiset"
begin

section \<open>Python values, objects and the interpreter state\<close>

text \<open>
  The notebook \<^verbatim>\<open>docs/tutorials/visualization_tutorial.ipynb\<close> defines three
  versions of \<^verbatim>\<open>agent_portrayal\<close> (Part 1, Part 2, Part 3) and the custom
  component \<^verbatim>\<open>Histogram\<close>. They read the attribute \<^verbatim>\<open>wealth\<close> of agent
  objects, so the embedding keeps objects in an explicit store and lets every function
  return the store it leaves behind, next to its result or the exception it raised.
\<close>

text \<open>
  A Python float is a dyadic rational, an infinity or a NaN. The only float operation the
  notebook performs is an ordering comparison with the integer literal \<^verbatim>\<open>0\<close>, which
  Python evaluates exactly, so a finite float is represented by its exact value.
\<close>

datatype pyfloat = Finite rat | PosInf | NegInf | NaN

text \<open>
  The values an attribute may hold: an \<^verbatim>\<open>int\<close>, a \<^verbatim>\<open>bool\<close>, a \<^verbatim>\<open>float\<close>, a
  \<^verbatim>\<open>complex\<close> (real and imaginary part), a \<^verbatim>\<open>str\<close> or \<^verbatim>\<open>None\<close>.
\<close>

datatype pyval =
    IntV int
  | BoolV bool
  | FloatV pyfloat
  | ComplexV pyfloat pyfloat
  | StrV string
  | NoneV

datatype error = AttributeError | TypeError | ValueError

type_synonym ref = nat

type_synonym pydict = "string \<rightharpoonup> pyval"

text \<open>
  The store: the attribute dictionary of every object, the agent collection that
  \<^verbatim>\<open>model.agents\<close> yields for every model object (in iteration order), and the value of
  the reactive variable \<^verbatim>\<open>update_counter\<close> of \<^verbatim>\<open>mesa.visualization.utils\<close>.
\<close>

record pystate =
  attrs :: "ref \<Rightarrow> pydict"
  agents :: "ref \<Rightarrow> ref list"
  update_counter :: int

text \<open>A computation runs on a store and returns its result, or the exception, and the store.\<close>

type_synonym 'a py = "pystate \<Rightarrow> (error + 'a) \<times> pystate"

definition py_return :: "'a \<Rightarrow> 'a py" where
  "py_return x = (\<lambda>s. (Inr x, s))"

definition py_lift :: "error + 'a \<Rightarrow> 'a py" where
  "py_lift r = (\<lambda>s. (r, s))"

definition py_bind :: "'a py \<Rightarrow> ('a \<Rightarrow> 'b py) \<Rightarrow> 'b py" where
  "py_bind m f = (\<lambda>s. case m s of (Inl e, s') \<Rightarrow> (Inl e, s') | (Inr x, s') \<Rightarrow> f x s')"

text \<open>\<^verbatim>\<open>obj.name\<close>: AttributeError when the object has no such attribute.\<close>

definition getattr :: "ref \<Rightarrow> string \<Rightarrow> pyval py" where
  "getattr obj name =
     (\<lambda>s. case attrs s obj name of
             None \<Rightarrow> (Inl AttributeError, s)
           | Some v \<Rightarrow> (Inr v, s))"

text \<open>
  \<^verbatim>\<open>v > n\<close> and \<^verbatim>\<open>v <= n\<close> for an integer \<^verbatim>\<open>n\<close>: defined on an int, on a
  bool (\<^verbatim>\<open>False\<close> is 0 and \<^verbatim>\<open>True\<close> is 1) and on a float, False on a NaN;
  TypeError on a complex number, on a string and on \<^verbatim>\<open>None\<close>, none of which is
  ordered against an int.
\<close>

fun float_gt :: "pyfloat \<Rightarrow> int \<Rightarrow> bool" where
  "float_gt (Finite q) n = (of_int n < q)"
| "float_gt PosInf n = True"
| "float_gt NegInf n = False"
| "float_gt NaN n = False"

fun float_le :: "pyfloat \<Rightarrow> int \<Rightarrow> bool" where
  "float_le (Finite q) n = (q \<le> of_int n)"
| "float_le PosInf n = False"
| "float_le NegInf n = True"
| "float_le NaN n = False"

fun py_gt :: "pyval \<Rightarrow> int \<Rightarrow> error + bool" where
  "py_gt (IntV i) n = Inr (n < i)"
| "py_gt (BoolV b) n = Inr (n < of_bool b)"
| "py_gt (FloatV f) n = Inr (float_gt f n)"
| "py_gt (ComplexV re im) n = Inl TypeError"
| "py_gt (StrV x) n = Inl TypeError"
| "py_gt NoneV n = Inl TypeError"

fun py_le :: "pyval \<Rightarrow> int \<Rightarrow> error + bool" where
  "py_le (IntV i) n = Inr (i \<le> n)"
| "py_le (BoolV b) n = Inr (of_bool b \<le> n)"
| "py_le (FloatV f) n = Inr (float_le f n)"
| "py_le (ComplexV re im) n = Inl TypeError"
| "py_le (StrV x) n = Inl TypeError"
| "py_le NoneV n = Inl TypeError"




section \<open>The portrayal functions of the notebook\<close>

text \<open>
  Part 1:
  \<^verbatim>\<open>
  def agent_portrayal(agent):
      return {
          "color": "tab:blue",
          "size": 50,
      }
  \<close>
\<close>

definition agent_portrayal_part1 :: "ref \<Rightarrow> pydict py" where
  "agent_portrayal_part1 agent =
     py_return [''color'' \<mapsto> StrV ''tab:blue'', ''size'' \<mapsto> IntV 50]"

text \<open>
  Part 2:
  \<^verbatim>\<open>
  def agent_portrayal(agent):
      size = 10
      color = "tab:red"
      if agent.wealth > 0:
          size = 50
          color = "tab:blue"
      return {"size": size, "color": color}
  \<close>
\<close>

definition agent_portrayal_part2 :: "ref \<Rightarrow> pydict py" where
  "agent_portrayal_part2 agent =
     (let psize = IntV 10;
          color = StrV ''tab:red''
      in py_bind (getattr agent ''wealth'') (\<lambda>w.
         py_bind (py_lift (py_gt w 0)) (\<lambda>b.
         let (psize, color) = (if b then (IntV 50, StrV ''tab:blue'') else (psize, color))
         in py_return [''size'' \<mapsto> psize, ''color'' \<mapsto> color])))"

text \<open>
  Part 3 defines the function once more, with the same text:
  \<^verbatim>\<open>
  def agent_portrayal(agent):
      size = 10
      color = "tab:red"
      if agent.wealth > 0:
          size = 50
          color = "tab:blue"
      return {"size": size, "color": color}
  \<close>
\<close>

definition agent_portrayal_part3 :: "ref \<Rightarrow> pydict py" where
  "agent_portrayal_part3 agent =
     (let psize = IntV 10;
          color = StrV ''tab:red''
      in py_bind (getattr agent ''wealth'') (\<lambda>w.
         py_bind (py_lift (py_gt w 0)) (\<lambda>b.
         let (psize, color) = (if b then (IntV 50, StrV ''tab:blue'') else (psize, color))
         in py_return [''size'' \<mapsto> psize, ''color'' \<mapsto> color])))"


section \<open>The Histogram component\<close>

text \<open>
  The plotting library and the display primitive are outside the notebook. What
  \<^verbatim>\<open>ax.hist(x, bins=n)\<close> makes of the data is a parameter of the embedding,
  \<open>draw_hist x n\<close>: either the bars it draws or the exception it raises (the library
  rejects, among others, data whose range is not finite and values it cannot bin). A
  figure is represented by its axes, each with the list of what has been drawn on it:
  \<^verbatim>\<open>Figure()\<close> is an empty figure, \<^verbatim>\<open>fig.subplots()\<close> adds one axes and returns a
  handle on it, a successful \<^verbatim>\<open>ax.hist\<close> adds its bars to that axes, and
  \<^verbatim>\<open>solara.FigureMatplotlib(fig)\<close> is the element handed to the renderer.
\<close>

record 'a axes =
  artists :: "'a list"

record 'a figure =
  fig_axes :: "'a axes list"

datatype 'a element = FigureMatplotlib "'a figure"

definition Figure :: "'a figure" where
  "Figure = \<lparr>fig_axes = []\<rparr>"

definition subplots :: "'a figure \<Rightarrow> 'a figure \<times> nat" where
  "subplots fig =
     (fig\<lparr>fig_axes := fig_axes fig @ [\<lparr>artists = []\<rparr>]\<rparr>, length (fig_axes fig))"

definition hist ::
  "(pyval list \<Rightarrow> nat \<Rightarrow> error + 'a) \<Rightarrow> 'a figure \<Rightarrow> nat \<Rightarrow> pyval list \<Rightarrow> nat \<Rightarrow> error + 'a figure"
where
  "hist draw_hist fig ax x bins =
     (case draw_hist x bins of
        Inl e \<Rightarrow> Inl e
      | Inr bars \<Rightarrow>
          Inr (fig\<lparr>fig_axes :=
                     map (\<lambda>(i, a). if i = ax then a\<lparr>artists := artists a @ [bars]\<rparr> else a)
                         (enumerate 0 (fig_axes fig))\<rparr>))"

text \<open>\<^verbatim>\<open>update_counter.get()\<close> reads the reactive variable.\<close>

definition update_counter_get :: "int py" where
  "update_counter_get = (\<lambda>s. (Inr (update_counter s), s))"

text \<open>\<^verbatim>\<open>model.agents\<close>, iterated.\<close>

definition model_agents :: "ref \<Rightarrow> ref list py" where
  "model_agents model = (\<lambda>s. (Inr (agents s model), s))"

text \<open>
  The comprehension \<^verbatim>\<open>[agent.wealth for agent in ...]\<close>: the attributes are read from
  the first agent to the last, and the first failing read ends the comprehension.
\<close>

fun wealth_comprehension :: "ref list \<Rightarrow> pyval list py" where
  "wealth_comprehension [] = py_return []"
| "wealth_comprehension (agent # rest) =
     py_bind (getattr agent ''wealth'') (\<lambda>w.
     py_bind (wealth_comprehension rest) (\<lambda>ws.
     py_return (w # ws)))"

text \<open>\<^verbatim>\<open>wealth_vals = [agent.wealth for agent in model.agents]\<close>\<close>

definition wealth_vals :: "ref \<Rightarrow> pyval list py" where
  "wealth_vals model = py_bind (model_agents model) wealth_comprehension"

text \<open>
  The body of the component, as run at each rendering:
  \<^verbatim>\<open>
  @solara.component
  def Histogram(model):
      update_counter.get()
      fig = Figure()
      ax = fig.subplots()
      wealth_vals = [agent.wealth for agent in model.agents]
      ax.hist(wealth_vals, bins=10)
      solara.FigureMatplotlib(fig)
  \<close>
\<close>

definition Histogram :: "(pyval list \<Rightarrow> nat \<Rightarrow> error + 'a) \<Rightarrow> ref \<Rightarrow> 'a element py" where
  "Histogram draw_hist model =
     py_bind update_counter_get (\<lambda>c.
     let fig = Figure;
         (fig, ax) = subplots fig
     in py_bind (wealth_vals model) (\<lambda>ws.
        py_bind (py_lift (hist draw_hist fig ax ws 10)) (\<lambda>fig.
        py_return (FigureMatplotlib fig))))"


section \<open>Properties of the portrayal functions\<close>

lemma agent_portrayal_part2_run:
  "agent_portrayal_part2 agent s =
     (case attrs s agent ''wealth'' of
        None \<Rightarrow> (Inl AttributeError, s)
      | Some w \<Rightarrow>
          (case py_gt w 0 of
             Inl e \<Rightarrow> (Inl e, s)
           | Inr b \<Rightarrow>
               (Inr (if b then [''size'' \<mapsto> IntV 50, ''color'' \<mapsto> StrV ''tab:blue'']
                     else [''size'' \<mapsto> IntV 10, ''color'' \<mapsto> StrV ''tab:red'']), s)))"
  by (simp add: agent_portrayal_part2_def py_bind_def py_lift_def py_return_def getattr_def
      split: option.split sum.split)

lemma le_zero_not_gt: "py_le w 0 = Inr True \<Longrightarrow> py_gt w 0 = Inr False"
proof (cases w)
  case (FloatV f)
  assume "py_le w 0 = Inr True"
  with FloatV show ?thesis by (cases f) auto
qed auto



text \<open>
  C1. For every agent whose \<^verbatim>\<open>wealth\<close> attribute is less than or equal to 0, the
  threshold \<^verbatim>\<open>agent_portrayal\<close> returns the mapping with size 10 and color
  \<^verbatim>\<open>"tab:red"\<close>.
\<close>

theorem agent_portrayal_nonpositive_wealth:
  assumes "attrs s agent ''wealth'' = Some w"
    and "py_le w 0 = Inr True"
  shows "fst (agent_portrayal_part2 agent s) =
           Inr [''size'' \<mapsto> IntV 10, ''color'' \<mapsto> StrV ''tab:red'']"
  using assms le_zero_not_gt [of w] by (simp add: agent_portrayal_part2_run)

theorem agent_portrayal_nonpositive_wealth_witness:
  "attrs \<lparr>attrs = (\<lambda>r. Map.empty)(3 := [''unique_id'' \<mapsto> IntV 3, ''wealth'' \<mapsto> IntV 0]),
          agents = (\<lambda>m. [3]), update_counter = 0\<rparr> 3 ''wealth'' = Some (IntV 0)
   \<and> py_le (IntV 0) 0 = Inr True
   \<and> fst (agent_portrayal_part2 3
          \<lparr>attrs = (\<lambda>r. Map.empty)(3 := [''unique_id'' \<mapsto> IntV 3, ''wealth'' \<mapsto> IntV 0]),
           agents = (\<lambda>m. [3]), update_counter = 0\<rparr>) =
       Inr [''size'' \<mapsto> IntV 10, ''color'' \<mapsto> StrV ''tab:red'']"
proof -
  let ?s = "\<lparr>attrs = (\<lambda>r. Map.empty)(3 := [''unique_id'' \<mapsto> IntV 3, ''wealth'' \<mapsto> IntV 0]),
             agents = (\<lambda>m. [3]), update_counter = 0\<rparr>"
  have h1: "attrs ?s 3 ''wealth'' = Some (IntV 0)" by simp
  have h2: "py_le (IntV 0) 0 = Inr True" by simp
  from agent_portrayal_nonpositive_wealth [OF h1 h2] h1 h2 show ?thesis by simp
qed



text \<open>
  C2. For every agent whose \<^verbatim>\<open>wealth\<close> attribute is strictly greater than 0, the
  threshold \<^verbatim>\<open>agent_portrayal\<close> returns the mapping with size 50 and color
  \<^verbatim>\<open>"tab:blue"\<close>.
\<close>

theorem agent_portrayal_positive_wealth:
  assumes "attrs s agent ''wealth'' = Some w"
    and "py_gt w 0 = Inr True"
  shows "fst (agent_portrayal_part2 agent s) =
           Inr [''size'' \<mapsto> IntV 50, ''color'' \<mapsto> StrV ''tab:blue'']"
  using assms by (simp add: agent_portrayal_part2_run)

theorem agent_portrayal_positive_wealth_witness:
  "attrs \<lparr>attrs = (\<lambda>r. Map.empty)(5 := [''wealth'' \<mapsto> IntV 2, ''unique_id'' \<mapsto> IntV 5]),
          agents = (\<lambda>m. [5]), update_counter = 1\<rparr> 5 ''wealth'' = Some (IntV 2)
   \<and> py_gt (IntV 2) 0 = Inr True
   \<and> fst (agent_portrayal_part2 5
          \<lparr>attrs = (\<lambda>r. Map.empty)(5 := [''wealth'' \<mapsto> IntV 2, ''unique_id'' \<mapsto> IntV 5]),
           agents = (\<lambda>m. [5]), update_counter = 1\<rparr>) =
       Inr [''size'' \<mapsto> IntV 50, ''color'' \<mapsto> StrV ''tab:blue'']"
proof -
  let ?s = "\<lparr>attrs = (\<lambda>r. Map.empty)(5 := [''wealth'' \<mapsto> IntV 2, ''unique_id'' \<mapsto> IntV 5]),
             agents = (\<lambda>m. [5]), update_counter = 1\<rparr>"
  have h1: "attrs ?s 5 ''wealth'' = Some (IntV 2)" by simp
  have h2: "py_gt (IntV 2) 0 = Inr True" by simp
  from agent_portrayal_positive_wealth [OF h1 h2] h1 h2 show ?thesis by simp
qed

text \<open>
  C4. The threshold \<^verbatim>\<open>agent_portrayal\<close> is deterministic and free of side effects:
  two calls on agents with equal \<^verbatim>\<open>wealth\<close>, in any two stores, return the same
  mapping (or raise the same exception), and a call leaves the store as it found it, the
  agent's attributes included.
\<close>

theorem agent_portrayal_deterministic_pure:
  "(attrs s a ''wealth'' = attrs s' b ''wealth'' \<longrightarrow>
      fst (agent_portrayal_part2 a s) = fst (agent_portrayal_part2 b s'))
   \<and> snd (agent_portrayal_part2 a s) = s"
  by (simp add: agent_portrayal_part2_run split: option.split sum.split)

theorem agent_portrayal_deterministic_pure_witness:
  "attrs \<lparr>attrs = (\<lambda>r. [''wealth'' \<mapsto> IntV 1]), agents = (\<lambda>m. [0, 1]), update_counter = 0\<rparr>
         0 ''wealth'' =
   attrs \<lparr>attrs = (\<lambda>r. [''wealth'' \<mapsto> IntV 1, ''pos'' \<mapsto> NoneV]), agents = (\<lambda>m. []),
          update_counter = 4\<rparr> 1 ''wealth''
   \<and> fst (agent_portrayal_part2 0
          \<lparr>attrs = (\<lambda>r. [''wealth'' \<mapsto> IntV 1]), agents = (\<lambda>m. [0, 1]), update_counter = 0\<rparr>) =
       fst (agent_portrayal_part2 1
          \<lparr>attrs = (\<lambda>r. [''wealth'' \<mapsto> IntV 1, ''pos'' \<mapsto> NoneV]), agents = (\<lambda>m. []),
           update_counter = 4\<rparr>)
   \<and> snd (agent_portrayal_part2 0
          \<lparr>attrs = (\<lambda>r. [''wealth'' \<mapsto> IntV 1]), agents = (\<lambda>m. [0, 1]), update_counter = 0\<rparr>) =
       \<lparr>attrs = (\<lambda>r. [''wealth'' \<mapsto> IntV 1]), agents = (\<lambda>m. [0, 1]), update_counter = 0\<rparr>"
proof -
  let ?s = "\<lparr>attrs = (\<lambda>r. [''wealth'' \<mapsto> IntV 1]), agents = (\<lambda>m. [0, 1]), update_counter = 0\<rparr>"
  let ?s' = "\<lparr>attrs = (\<lambda>r. [''wealth'' \<mapsto> IntV 1, ''pos'' \<mapsto> NoneV]), agents = (\<lambda>m. []),
              update_counter = 4\<rparr>"
  have h: "attrs ?s 0 ''wealth'' = attrs ?s' 1 ''wealth''" by simp
  from agent_portrayal_deterministic_pure [of ?s 0 ?s' 1] h show ?thesis by blast
qed

text \<open>
  C5. Whenever the Part 1 or the threshold \<^verbatim>\<open>agent_portrayal\<close> returns a mapping, its
  \<^verbatim>\<open>size\<close> entry is a non-negative integer.
\<close>

theorem agent_portrayal_size_nonneg:
  "(fst (agent_portrayal_part1 a s) = Inr d \<longrightarrow> (\<exists>n. d ''size'' = Some (IntV n) \<and> 0 \<le> n))
   \<and> (fst (agent_portrayal_part2 a s) = Inr d' \<longrightarrow> (\<exists>n. d' ''size'' = Some (IntV n) \<and> 0 \<le> n))"
  by (auto simp add: agent_portrayal_part1_def py_return_def agent_portrayal_part2_run
      split: option.splits sum.splits if_splits)

theorem agent_portrayal_size_nonneg_witness:
  "fst (agent_portrayal_part1 0
      \<lparr>attrs = (\<lambda>r. [''wealth'' \<mapsto> IntV (- 1)]), agents = (\<lambda>m. [0]), update_counter = 0\<rparr>) =
     Inr [''color'' \<mapsto> StrV ''tab:blue'', ''size'' \<mapsto> IntV 50]
   \<and> (\<exists>n. [''color'' \<mapsto> StrV ''tab:blue'', ''size'' \<mapsto> IntV 50] ''size'' = Some (IntV n) \<and> 0 \<le> n)
   \<and> fst (agent_portrayal_part2 0
      \<lparr>attrs = (\<lambda>r. [''wealth'' \<mapsto> IntV (- 1)]), agents = (\<lambda>m. [0]), update_counter = 0\<rparr>) =
     Inr [''size'' \<mapsto> IntV 10, ''color'' \<mapsto> StrV ''tab:red'']
   \<and> (\<exists>n. [''size'' \<mapsto> IntV 10, ''color'' \<mapsto> StrV ''tab:red''] ''size'' = Some (IntV n) \<and> 0 \<le> n)"
proof -
  let ?s = "\<lparr>attrs = (\<lambda>r. [''wealth'' \<mapsto> IntV (- 1)]), agents = (\<lambda>m. [0]), update_counter = 0\<rparr>"
  have h1: "fst (agent_portrayal_part1 0 ?s) =
              Inr [''color'' \<mapsto> StrV ''tab:blue'', ''size'' \<mapsto> IntV 50]"
    by (simp add: agent_portrayal_part1_def py_return_def)
  have h2: "fst (agent_portrayal_part2 0 ?s) =
              Inr [''size'' \<mapsto> IntV 10, ''color'' \<mapsto> StrV ''tab:red'']"
    by (simp add: agent_portrayal_part2_run)
  from agent_portrayal_size_nonneg [of 0 ?s "[''color'' \<mapsto> StrV ''tab:blue'', ''size'' \<mapsto> IntV 50]"
        "[''size'' \<mapsto> IntV 10, ''color'' \<mapsto> StrV ''tab:red'']"] h1 h2
  show ?thesis by blast
qed

text \<open>
  C7. Every mapping the threshold \<^verbatim>\<open>agent_portrayal\<close> returns has exactly the two keys
  \<^verbatim>\<open>size\<close> and \<^verbatim>\<open>color\<close>; the size is an integer and the color a string.
\<close>

theorem agent_portrayal_fixed_shape:
  assumes "fst (agent_portrayal_part2 a s) = Inr d"
  shows "dom d = {''size'', ''color''}
         \<and> (\<exists>n. d ''size'' = Some (IntV n))
         \<and> (\<exists>c. d ''color'' = Some (StrV c))"
  using assms
  by (auto simp add: agent_portrayal_part2_run split: option.splits sum.splits if_splits)

theorem agent_portrayal_fixed_shape_witness:
  "fst (agent_portrayal_part2 2
      \<lparr>attrs = (\<lambda>r. [''wealth'' \<mapsto> FloatV (Finite (1 / 2))]), agents = (\<lambda>m. [2]),
       update_counter = 0\<rparr>) =
     Inr [''size'' \<mapsto> IntV 50, ''color'' \<mapsto> StrV ''tab:blue'']
   \<and> dom [''size'' \<mapsto> IntV 50, ''color'' \<mapsto> StrV ''tab:blue''] = {''size'', ''color''}
   \<and> (\<exists>n. [''size'' \<mapsto> IntV 50, ''color'' \<mapsto> StrV ''tab:blue''] ''size'' = Some (IntV n))
   \<and> (\<exists>c. [''size'' \<mapsto> IntV 50, ''color'' \<mapsto> StrV ''tab:blue''] ''color'' = Some (StrV c))"
proof -
  let ?s = "\<lparr>attrs = (\<lambda>r. [''wealth'' \<mapsto> FloatV (Finite (1 / 2))]), agents = (\<lambda>m. [2]),
             update_counter = 0\<rparr>"
  have h: "fst (agent_portrayal_part2 2 ?s) =
             Inr [''size'' \<mapsto> IntV 50, ''color'' \<mapsto> StrV ''tab:blue'']"
    by (simp add: agent_portrayal_part2_run)
  from agent_portrayal_fixed_shape [OF h] h show ?thesis by blast
qed





text \<open>
  C9. The Part 1 \<^verbatim>\<open>agent_portrayal\<close> is constant: on every agent and in every store,
  whatever the agent's attributes are, it returns the mapping with color
  \<^verbatim>\<open>"tab:blue"\<close> and size 50 and leaves the store unchanged; its result therefore
  depends on no attribute of the agent.
\<close>

theorem agent_portrayal_part1_constant:
  "agent_portrayal_part1 a s = (Inr [''color'' \<mapsto> StrV ''tab:blue'', ''size'' \<mapsto> IntV 50], s)"
  by (simp add: agent_portrayal_part1_def py_return_def)

text \<open>
  C10. The \<^verbatim>\<open>agent_portrayal\<close> of Part 2 and the one of Part 3 are extensionally
  equal: on every agent and store they return the same result and the same store.
\<close>

theorem agent_portrayal_part2_part3_equal:
  "agent_portrayal_part3 a s = agent_portrayal_part2 a s"
  unfolding agent_portrayal_part3_def agent_portrayal_part2_def ..





section \<open>Properties of the Histogram component\<close>

lemma wealth_comprehension_run:
  "wealth_comprehension as s =
     (if \<forall>a\<in>set as. attrs s a ''wealth'' \<noteq> None
      then Inr (map (\<lambda>a. the (attrs s a ''wealth'')) as)
      else Inl AttributeError, s)"
proof (induction as)
  case Nil
  show ?case by (simp add: py_return_def)
next
  case (Cons agent rest)
  show ?case
  proof (cases "attrs s agent ''wealth''")
    case None
    then show ?thesis by (simp add: py_bind_def getattr_def)
  next
    case (Some w)
    with Cons.IH show ?thesis by (simp add: py_bind_def getattr_def py_return_def)
  qed
qed

lemma wealth_vals_run:
  "wealth_vals model s =
     (if \<forall>a\<in>set (agents s model). attrs s a ''wealth'' \<noteq> None
      then Inr (map (\<lambda>a. the (attrs s a ''wealth'')) (agents s model))
      else Inl AttributeError, s)"
  by (simp add: wealth_vals_def model_agents_def py_bind_def wealth_comprehension_run)

text \<open>
  A run of the component: the extraction of the wealth sequence, then the drawing of that
  sequence with 10 bins on the one axes of a fresh figure; an exception of either step
  ends the run, and the store is the one the run started from.
\<close>

lemma Histogram_run:
  "Histogram draw_hist model s =
     (case fst (wealth_vals model s) of
        Inl e \<Rightarrow> (Inl e, s)
      | Inr ws \<Rightarrow>
          (case draw_hist ws 10 of
             Inl e \<Rightarrow> (Inl e, s)
           | Inr bars \<Rightarrow> (Inr (FigureMatplotlib \<lparr>fig_axes = [\<lparr>artists = [bars]\<rparr>]\<rparr>), s)))"
  by (simp add: Histogram_def update_counter_get_def py_bind_def py_return_def py_lift_def
      Figure_def subplots_def hist_def wealth_vals_run Let_def split: sum.split)

lemma Histogram_draw_error:
  "fst (wealth_vals model s) = Inr ws \<Longrightarrow> draw_hist ws 10 = Inl e \<Longrightarrow>
     Histogram draw_hist model s = (Inl e, s)"
  by (simp add: Histogram_run)

lemma map_Some_the:
  "\<forall>a\<in>set as. f a \<noteq> None \<Longrightarrow> map Some (map (\<lambda>a. the (f a)) as) = map f as"
  by (induction as) auto

text \<open>
  C3. The wealth sequence that \<^verbatim>\<open>Histogram\<close> extracts, \<^verbatim>\<open>wealth_vals\<close>, has as
  many entries as the model has agents, and as a multiset its values are the agents'
  \<^verbatim>\<open>wealth\<close> values; the extraction succeeds on every model all of whose agents have a
  \<^verbatim>\<open>wealth\<close>.
\<close>

theorem Histogram_wealth_vals:
  "(fst (wealth_vals model s) = Inr ws \<longrightarrow>
      length ws = length (agents s model)
      \<and> image_mset Some (mset ws) = image_mset (\<lambda>a. attrs s a ''wealth'') (mset (agents s model)))
   \<and> ((\<forall>a\<in>set (agents s model). attrs s a ''wealth'' \<noteq> None) \<longrightarrow>
        (\<exists>vs. fst (wealth_vals model s) = Inr vs))"
proof (cases "\<forall>a\<in>set (agents s model). attrs s a ''wealth'' \<noteq> None")
  case True
  have run: "fst (wealth_vals model s) = Inr (map (\<lambda>a. the (attrs s a ''wealth'')) (agents s model))"
    using True by (simp add: wealth_vals_run)
  have eq: "map Some (map (\<lambda>a. the (attrs s a ''wealth'')) (agents s model)) =
          map (\<lambda>a. attrs s a ''wealth'') (agents s model)"
    using True by (rule map_Some_the)
  have "image_mset Some (mset (map (\<lambda>a. the (attrs s a ''wealth'')) (agents s model))) =
          mset (map Some (map (\<lambda>a. the (attrs s a ''wealth'')) (agents s model)))"
    by (simp only: mset_map)
  also have "\<dots> = mset (map (\<lambda>a. attrs s a ''wealth'') (agents s model))"
    by (simp only: eq)
  also have "\<dots> = image_mset (\<lambda>a. attrs s a ''wealth'') (mset (agents s model))"
    by (simp only: mset_map)
  finally have ms: "image_mset Some (mset (map (\<lambda>a. the (attrs s a ''wealth'')) (agents s model))) =
          image_mset (\<lambda>a. attrs s a ''wealth'') (mset (agents s model))" .
  show ?thesis
  proof (intro conjI impI)
    assume a: "fst (wealth_vals model s) = Inr ws"
    with run have ws: "ws = map (\<lambda>a. the (attrs s a ''wealth'')) (agents s model)" by simp
    show "length ws = length (agents s model)" by (simp add: ws)
    show "image_mset Some (mset ws) =
            image_mset (\<lambda>a. attrs s a ''wealth'') (mset (agents s model))"
      using ms by (simp only: ws)
  next
    show "\<exists>vs. fst (wealth_vals model s) = Inr vs" using run by blast
  qed
next
  case False
  then have "fst (wealth_vals model s) = Inl AttributeError"
    by (simp add: wealth_vals_run)
  with False show ?thesis by auto
qed

theorem Histogram_wealth_vals_witness:
  "fst (wealth_vals 0
       \<lparr>attrs = (\<lambda>r. Map.empty)(1 := [''wealth'' \<mapsto> IntV 2], 2 := [''wealth'' \<mapsto> IntV 0],
                                3 := [''wealth'' \<mapsto> IntV 2]),
        agents = (\<lambda>m. [])(0 := [1, 2, 3]), update_counter = 0\<rparr>) = Inr [IntV 2, IntV 0, IntV 2]
   \<and> agents
       \<lparr>attrs = (\<lambda>r. Map.empty)(1 := [''wealth'' \<mapsto> IntV 2], 2 := [''wealth'' \<mapsto> IntV 0],
                                3 := [''wealth'' \<mapsto> IntV 2]),
        agents = (\<lambda>m. [])(0 := [1, 2, 3]), update_counter = 0\<rparr> 0 = [1, 2, 3]
   \<and> map (\<lambda>a. attrs
       \<lparr>attrs = (\<lambda>r. Map.empty)(1 := [''wealth'' \<mapsto> IntV 2], 2 := [''wealth'' \<mapsto> IntV 0],
                                3 := [''wealth'' \<mapsto> IntV 2]),
        agents = (\<lambda>m. [])(0 := [1, 2, 3]), update_counter = 0\<rparr> a ''wealth'') [1, 2, 3] = [Some (IntV 2), Some (IntV 0), Some (IntV 2)]
   \<and> length [IntV 2, IntV 0, IntV 2] = length (agents
       \<lparr>attrs = (\<lambda>r. Map.empty)(1 := [''wealth'' \<mapsto> IntV 2], 2 := [''wealth'' \<mapsto> IntV 0],
                                3 := [''wealth'' \<mapsto> IntV 2]),
        agents = (\<lambda>m. [])(0 := [1, 2, 3]), update_counter = 0\<rparr> 0)
   \<and> image_mset Some (mset [IntV 2, IntV 0, IntV 2]) =
       image_mset (\<lambda>a. attrs
       \<lparr>attrs = (\<lambda>r. Map.empty)(1 := [''wealth'' \<mapsto> IntV 2], 2 := [''wealth'' \<mapsto> IntV 0],
                                3 := [''wealth'' \<mapsto> IntV 2]),
        agents = (\<lambda>m. [])(0 := [1, 2, 3]), update_counter = 0\<rparr> a ''wealth'') (mset (agents
       \<lparr>attrs = (\<lambda>r. Map.empty)(1 := [''wealth'' \<mapsto> IntV 2], 2 := [''wealth'' \<mapsto> IntV 0],
                                3 := [''wealth'' \<mapsto> IntV 2]),
        agents = (\<lambda>m. [])(0 := [1, 2, 3]), update_counter = 0\<rparr> 0))"
proof -
  let ?s = "\<lparr>attrs = (\<lambda>r. Map.empty)(1 := [''wealth'' \<mapsto> IntV 2], 2 := [''wealth'' \<mapsto> IntV 0],
                                3 := [''wealth'' \<mapsto> IntV 2]),
        agents = (\<lambda>m. [])(0 := [1, 2, 3]), update_counter = 0\<rparr>"
  have h1: "fst (wealth_vals 0 ?s) = Inr [IntV 2, IntV 0, IntV 2]"
    by (simp add: wealth_vals_def model_agents_def py_bind_def py_return_def getattr_def)
  have h2: "\<forall>a\<in>set (agents ?s 0). attrs ?s a ''wealth'' \<noteq> None" by simp
  have h3: "agents ?s 0 = [1, 2, 3]" by simp
  have h4: "map (\<lambda>a. attrs ?s a ''wealth'') [1, 2, 3] = [Some (IntV 2), Some (IntV 0), Some (IntV 2)]"
    by simp
  from Histogram_wealth_vals [of 0 ?s "[IntV 2, IntV 0, IntV 2]"] h1 h2 h3 h4 show ?thesis
    by blast
qed

text \<open>
  C6. \<^verbatim>\<open>Histogram\<close> keeps no state from one invocation to the next and is idempotent:
  an invocation leaves the store as it found it (the model's agents and their
  \<^verbatim>\<open>wealth\<close> included), so a second invocation extracts the same wealth sequence and
  returns the same figure, or raises the same exception, as the first; and what it
  returns is determined by the model's agents and their \<^verbatim>\<open>wealth\<close> alone, whatever
  the rest of the store holds. This holds whatever \<^verbatim>\<open>ax.hist\<close> draws or raises.
\<close>

theorem Histogram_stateless_idempotent:
  "snd (Histogram draw_hist model s) = s
   \<and> Histogram draw_hist model (snd (Histogram draw_hist model s)) = Histogram draw_hist model s
   \<and> fst (wealth_vals model (snd (Histogram draw_hist model s))) = fst (wealth_vals model s)
   \<and> (agents s' model = agents s model
        \<and> (\<forall>a\<in>set (agents s model). attrs s' a ''wealth'' = attrs s a ''wealth'') \<longrightarrow>
      fst (Histogram draw_hist model s') = fst (Histogram draw_hist model s))"
proof -
  have store: "snd (Histogram draw_hist model s) = s"
    by (simp add: Histogram_run split: sum.split)
  have same: "fst (wealth_vals model s') = fst (wealth_vals model s)"
    if "agents s' model = agents s model"
      and "\<forall>a\<in>set (agents s model). attrs s' a ''wealth'' = attrs s a ''wealth''"
    using that by (simp add: wealth_vals_run)
  have "fst (Histogram draw_hist model s') = fst (Histogram draw_hist model s)"
    if "agents s' model = agents s model"
      and "\<forall>a\<in>set (agents s model). attrs s' a ''wealth'' = attrs s a ''wealth''"
    using same [OF that] by (simp add: Histogram_run split: sum.split)
  with store show ?thesis by simp
qed

theorem Histogram_stateless_idempotent_witness:
  "agents
       \<lparr>attrs = (\<lambda>r. Map.empty)(1 := [''wealth'' \<mapsto> IntV 2, ''pos'' \<mapsto> NoneV],
                                2 := [''wealth'' \<mapsto> IntV 0], 3 := [''wealth'' \<mapsto> IntV 2],
                                4 := [''wealth'' \<mapsto> IntV 9]),
        agents = (\<lambda>m. [4])(0 := [1, 2, 3]), update_counter = 7\<rparr> 0 = agents
       \<lparr>attrs = (\<lambda>r. Map.empty)(1 := [''wealth'' \<mapsto> IntV 2], 2 := [''wealth'' \<mapsto> IntV 0],
                                3 := [''wealth'' \<mapsto> IntV 2]),
        agents = (\<lambda>m. [])(0 := [1, 2, 3]), update_counter = 0\<rparr> 0
   \<and> agents
       \<lparr>attrs = (\<lambda>r. Map.empty)(1 := [''wealth'' \<mapsto> IntV 2], 2 := [''wealth'' \<mapsto> IntV 0],
                                3 := [''wealth'' \<mapsto> IntV 2]),
        agents = (\<lambda>m. [])(0 := [1, 2, 3]), update_counter = 0\<rparr> 0 = [1, 2, 3]
   \<and> map (\<lambda>a. attrs
       \<lparr>attrs = (\<lambda>r. Map.empty)(1 := [''wealth'' \<mapsto> IntV 2, ''pos'' \<mapsto> NoneV],
                                2 := [''wealth'' \<mapsto> IntV 0], 3 := [''wealth'' \<mapsto> IntV 2],
                                4 := [''wealth'' \<mapsto> IntV 9]),
        agents = (\<lambda>m. [4])(0 := [1, 2, 3]), update_counter = 7\<rparr> a ''wealth'') [1, 2, 3] = map (\<lambda>a. attrs
       \<lparr>attrs = (\<lambda>r. Map.empty)(1 := [''wealth'' \<mapsto> IntV 2], 2 := [''wealth'' \<mapsto> IntV 0],
                                3 := [''wealth'' \<mapsto> IntV 2]),
        agents = (\<lambda>m. [])(0 := [1, 2, 3]), update_counter = 0\<rparr> a ''wealth'') [1, 2, 3]
   \<and> fst (Histogram (\<lambda>x bins. if NoneV \<in> set x then Inl TypeError else Inr (x, bins)) 0
       \<lparr>attrs = (\<lambda>r. Map.empty)(1 := [''wealth'' \<mapsto> IntV 2, ''pos'' \<mapsto> NoneV],
                                2 := [''wealth'' \<mapsto> IntV 0], 3 := [''wealth'' \<mapsto> IntV 2],
                                4 := [''wealth'' \<mapsto> IntV 9]),
        agents = (\<lambda>m. [4])(0 := [1, 2, 3]), update_counter = 7\<rparr>) = fst (Histogram (\<lambda>x bins. if NoneV \<in> set x then Inl TypeError else Inr (x, bins)) 0
       \<lparr>attrs = (\<lambda>r. Map.empty)(1 := [''wealth'' \<mapsto> IntV 2], 2 := [''wealth'' \<mapsto> IntV 0],
                                3 := [''wealth'' \<mapsto> IntV 2]),
        agents = (\<lambda>m. [])(0 := [1, 2, 3]), update_counter = 0\<rparr>)
   \<and> snd (Histogram (\<lambda>x bins. if NoneV \<in> set x then Inl TypeError else Inr (x, bins)) 0
       \<lparr>attrs = (\<lambda>r. Map.empty)(1 := [''wealth'' \<mapsto> IntV 2], 2 := [''wealth'' \<mapsto> IntV 0],
                                3 := [''wealth'' \<mapsto> IntV 2]),
        agents = (\<lambda>m. [])(0 := [1, 2, 3]), update_counter = 0\<rparr>) =
       \<lparr>attrs = (\<lambda>r. Map.empty)(1 := [''wealth'' \<mapsto> IntV 2], 2 := [''wealth'' \<mapsto> IntV 0],
                                3 := [''wealth'' \<mapsto> IntV 2]),
        agents = (\<lambda>m. [])(0 := [1, 2, 3]), update_counter = 0\<rparr>
   \<and> Histogram (\<lambda>x bins. if NoneV \<in> set x then Inl TypeError else Inr (x, bins)) 0 (snd (Histogram (\<lambda>x bins. if NoneV \<in> set x then Inl TypeError else Inr (x, bins)) 0
       \<lparr>attrs = (\<lambda>r. Map.empty)(1 := [''wealth'' \<mapsto> IntV 2], 2 := [''wealth'' \<mapsto> IntV 0],
                                3 := [''wealth'' \<mapsto> IntV 2]),
        agents = (\<lambda>m. [])(0 := [1, 2, 3]), update_counter = 0\<rparr>)) = Histogram (\<lambda>x bins. if NoneV \<in> set x then Inl TypeError else Inr (x, bins)) 0
       \<lparr>attrs = (\<lambda>r. Map.empty)(1 := [''wealth'' \<mapsto> IntV 2], 2 := [''wealth'' \<mapsto> IntV 0],
                                3 := [''wealth'' \<mapsto> IntV 2]),
        agents = (\<lambda>m. [])(0 := [1, 2, 3]), update_counter = 0\<rparr>"
proof -
  let ?s = "\<lparr>attrs = (\<lambda>r. Map.empty)(1 := [''wealth'' \<mapsto> IntV 2], 2 := [''wealth'' \<mapsto> IntV 0],
                                3 := [''wealth'' \<mapsto> IntV 2]),
        agents = (\<lambda>m. [])(0 := [1, 2, 3]), update_counter = 0\<rparr>"
  let ?s' = "\<lparr>attrs = (\<lambda>r. Map.empty)(1 := [''wealth'' \<mapsto> IntV 2, ''pos'' \<mapsto> NoneV],
                                2 := [''wealth'' \<mapsto> IntV 0], 3 := [''wealth'' \<mapsto> IntV 2],
                                4 := [''wealth'' \<mapsto> IntV 9]),
        agents = (\<lambda>m. [4])(0 := [1, 2, 3]), update_counter = 7\<rparr>"
  let ?d = "(\<lambda>x bins. if NoneV \<in> set x then Inl TypeError else Inr (x, bins)) :: pyval list \<Rightarrow> nat \<Rightarrow> error + pyval list \<times> nat"
  have h1: "agents ?s' 0 = agents ?s 0" by simp
  have h2: "\<forall>a\<in>set (agents ?s 0). attrs ?s' a ''wealth'' = attrs ?s a ''wealth''" by simp
  have h3: "agents ?s 0 = [1, 2, 3]" by simp
  have h4: "map (\<lambda>a. attrs ?s' a ''wealth'') [1, 2, 3] = map (\<lambda>a. attrs ?s a ''wealth'') [1, 2, 3]"
    by simp
  from Histogram_stateless_idempotent [of ?d 0 ?s ?s'] h1 h2 h3 h4 show ?thesis by blast
qed

end
